theory Spec2Isabelle
  imports Main "HOL-Library.AList"
begin

section \<open>JavaScript string primitives used by the sources\<close>

text \<open>
  Strings are character lists. Only the operations the two source files call are
  modelled: \<open>startsWith\<close>, \<open>indexOf\<close> (with \<open>-1\<close> for "absent"), \<open>includes\<close> (here \<open>includes_str\<close>),
  \<open>substring(0, n)\<close>, \<open>toLowerCase\<close> on ASCII letters and \<open>trim\<close> on ASCII white space.
\<close>

fun startsWith :: "string \<Rightarrow> string \<Rightarrow> bool" where
  "startsWith s [] = True"
| "startsWith [] (p # ps) = False"
| "startsWith (c # cs) (p # ps) = (c = p \<and> startsWith cs ps)"

fun indexOfFrom :: "int \<Rightarrow> string \<Rightarrow> string \<Rightarrow> int" where
  "indexOfFrom i [] p = (if p = [] then i else -1)"
| "indexOfFrom i (c # cs) p = (if startsWith (c # cs) p then i else indexOfFrom (i + 1) cs p)"

definition indexOf :: "string \<Rightarrow> string \<Rightarrow> int" where
  "indexOf s p = indexOfFrom 0 s p"

definition includes_str :: "string \<Rightarrow> string \<Rightarrow> bool" where
  "includes_str s p = (indexOf s p \<noteq> -1)"

definition substring0 :: "string \<Rightarrow> int \<Rightarrow> string" where
  "substring0 s n = take (nat n) s"

definition lowerChar :: "char \<Rightarrow> char" where
  "lowerChar c =
     (if (65::nat) \<le> of_char c \<and> of_char c \<le> (90::nat) then char_of (of_char c + (32::nat)) else c)"

definition toLowerCase :: "string \<Rightarrow> string" where
  "toLowerCase s = map lowerChar s"

definition isBlank :: "char \<Rightarrow> bool" where
  "isBlank c =
     (c = CHR '' '' \<or> c = CHR 0x09 \<or> c = CHR 0x0A \<or> c = CHR 0x0B \<or> c = CHR 0x0C \<or> c = CHR 0x0D)"

definition trim :: "string \<Rightarrow> string" where
  "trim s = rev (dropWhile isBlank (rev (dropWhile isBlank s)))"

text \<open>\<open>s.split(sep)\<close> for a one-character separator.\<close>

fun splitOn :: "char \<Rightarrow> string \<Rightarrow> string list" where
  "splitOn sep [] = [[]]"
| "splitOn sep (c # cs) =
     (if c = sep then [] # splitOn sep cs
      else (case splitOn sep cs of [] \<Rightarrow> [[c]] | w # ws \<Rightarrow> (c # w) # ws))"

section \<open>The platform's URL class\<close>

text \<open>
  \<open>new URL(text)\<close> belongs to the JavaScript platform, not to the repository. The model
  covers the fragment of absolute \<open>http\<close> and \<open>https\<close> URLs of the shape
  \<open>scheme://hostname[:port][/path][?query][#fragment]\<close>: the scheme and the host name are
  lower-cased, the scheme's default port is dropped, an empty path reads as \<open>/\<close>, and
  \<open>searchParams.get\<close> returns the value of the first pair with that name. A text
  that the model does not recognise makes the constructor throw, which is the value
  \<open>None\<close>. User information, percent-encoding and decoding, dot segments, backslashes
  and non-http schemes are outside the fragment: paths and queries are kept as written.
\<close>

record URL =
  protocol :: string
  hostname :: string
  port :: string
  pathname :: string
  search :: string

definition host :: "URL \<Rightarrow> string" where
  "host u = (if port u = [] then hostname u else hostname u @ '':'' @ port u)"

definition isDigit :: "char \<Rightarrow> bool" where
  "isDigit c = ((48::nat) \<le> of_char c \<and> of_char c \<le> (57::nat))"

definition forbiddenHostChar :: "char \<Rightarrow> bool" where
  "forbiddenHostChar c =
     (c \<in> set [CHR ''<'', CHR ''>'', CHR ''@'', CHR ''['', CHR 0x5C, CHR '']'', CHR ''^'', CHR ''|'', CHR ''%'']
      \<or> of_char c < (33::nat) \<or> (126::nat) < of_char c)"

definition defaultPort :: "string \<Rightarrow> string" where
  "defaultPort scheme = (if scheme = ''http'' then ''80'' else ''443'')"

definition isPathEnd :: "char \<Rightarrow> bool" where
  "isPathEnd c = (c = CHR ''?'' \<or> c = CHR ''#'')"

definition isAuthorityEnd :: "char \<Rightarrow> bool" where
  "isAuthorityEnd c = (c = CHR ''/'' \<or> c = CHR ''?'' \<or> c = CHR ''#'')"

definition portNumber :: "string \<Rightarrow> int" where
  "portNumber p = foldl (\<lambda>n c. 10 * n + (of_char c - 48)) 0 p"

definition parseAuthority :: "string \<Rightarrow> string \<Rightarrow> (string \<times> string) option" where
  "parseAuthority scheme a =
     (let h = takeWhile (\<lambda>c. c \<noteq> CHR '':'') a;
          r = dropWhile (\<lambda>c. c \<noteq> CHR '':'') a;
          p = drop 1 r;
          p' = dropWhile (\<lambda>c. c = CHR ''0'') p;
          p'' = (if p \<noteq> [] \<and> p' = [] then ''0'' else p')
      in if h = [] \<or> list_ex forbiddenHostChar h then None
         else if \<not> list_all isDigit p \<or> 65535 < portNumber p then None
         else Some (toLowerCase h, if p'' = defaultPort scheme then [] else p''))"

definition newURL :: "string \<Rightarrow> URL option" where
  "newURL text =
     (let scheme = toLowerCase (takeWhile (\<lambda>c. c \<noteq> CHR '':'') text);
          rest = dropWhile (\<lambda>c. c \<noteq> CHR '':'') text
      in if (scheme \<noteq> ''http'' \<and> scheme \<noteq> ''https'') \<or> \<not> startsWith rest ''://'' then None
         else
           (let r = drop 3 rest;
                authority = takeWhile (\<lambda>c. \<not> isAuthorityEnd c) r;
                afterAuthority = dropWhile (\<lambda>c. \<not> isAuthorityEnd c) r;
                path = takeWhile (\<lambda>c. \<not> isPathEnd c) afterAuthority;
                afterPath = dropWhile (\<lambda>c. \<not> isPathEnd c) afterAuthority;
                query = takeWhile (\<lambda>c. c \<noteq> CHR ''#'') afterPath
            in case parseAuthority scheme authority of
                 None \<Rightarrow> None
               | Some (h, p) \<Rightarrow>
                   Some \<lparr>protocol = scheme @ '':'', hostname = h, port = p,
                         pathname = (if path = [] then ''/'' else path),
                         search = (if query = ''?'' then [] else query)\<rparr>))"

text \<open>\<open>url.searchParams.get(name)\<close>: \<open>None\<close> is JavaScript's \<open>null\<close>.\<close>

definition queryPairs :: "string \<Rightarrow> (string \<times> string) list" where
  "queryPairs q =
     map (\<lambda>kv. (takeWhile (\<lambda>c. c \<noteq> CHR ''='') kv, drop 1 (dropWhile (\<lambda>c. c \<noteq> CHR ''='') kv)))
       (filter (\<lambda>kv. kv \<noteq> []) (splitOn CHR ''&'' (drop 1 q)))"

definition searchParams_get :: "URL \<Rightarrow> string \<Rightarrow> string option" where
  "searchParams_get u name = map_of (queryPairs (search u)) name"

section \<open>Credential/URI codec: \<open>parseUri\<close>\<close>

record IJupyterServerUri =
  baseUrl :: string
  token :: string
  displayName :: string
  authorizationHeader :: "(string \<times> string) list option"

text \<open>
  Modelled from the spec: the reserved prefix of internally crafted URIs. The constant
  \<open>Identifiers.REMOTE_URI\<close> is declared in \<open>platform/common/constants\<close>, not in the
  files embedded here; the text below stands for it.
\<close>

definition REMOTE_URI :: string where
  "REMOTE_URI = ''https://remote/''"

text \<open>\<open>a || b\<close> on strings: the empty string is falsy.\<close>

definition orElse :: "string \<Rightarrow> string \<Rightarrow> string" where
  "orElse a b = (if a = [] then b else a)"

definition parseUri :: "string \<Rightarrow> string \<Rightarrow> IJupyterServerUri option" where
  "parseUri uri dn =
     (if startsWith uri REMOTE_URI then None
      else case newURL uri of
             None \<Rightarrow> None
           | Some url \<Rightarrow>
               Some \<lparr>baseUrl = protocol url @ ''//'' @ host url @
                                (if pathname url = ''/lab'' \<or> pathname url = ''/tree'' then []
                                 else pathname url),
                     token = (case searchParams_get url ''token'' of None \<Rightarrow> [] | Some t \<Rightarrow> orElse t []),
                     displayName = orElse dn (hostname url),
                     authorizationHeader = None\<rparr>)"

section \<open>Server store: \<open>NewStorage\<close>\<close>

record StoredServer =
  handle :: string
  uri :: string
  serverInfo :: IJupyterServerUri

record StorageItem =
  item_handle :: string
  item_uri :: string
  item_displayName :: string

text \<open>
  The value kept under the key \<open>UserJupyterServerUriListKeyV2\<close> of the encrypted storage
  is \<open>string | undefined\<close>. The store only tests it for falsiness, compares it with
  \<open>'[]'\<close> and hands it to \<open>JSON.parse\<close>, so a payload is modelled by what those three
  observe: \<open>NoData\<close> is \<open>undefined\<close> or the empty string, \<open>JsonText items\<close> is the text
  \<open>JSON.stringify(items)\<close> (so \<open>JsonText []\<close> is \<open>'[]'\<close>), and \<open>BadText\<close> is any text
  on which \<open>JSON.parse\<close> throws. The storage itself is taken to be reliable: \<open>retrieve\<close>
  returns what the last \<open>store\<close> wrote.
\<close>

datatype stored_text = NoData | JsonText "StorageItem list" | BadText

definition JSON_stringify :: "StorageItem list \<Rightarrow> stored_text" where
  "JSON_stringify items = JsonText items"

fun JSON_parse :: "stored_text \<Rightarrow> StorageItem list option" where
  "JSON_parse (JsonText items) = Some items"
| "JSON_parse NoData = None"
| "JSON_parse BadText = None"

definition serverToStorageFormat :: "StoredServer list \<Rightarrow> StorageItem list" where
  "serverToStorageFormat ss =
     map (\<lambda>s. \<lparr>item_handle = handle s, item_uri = uri s,
                item_displayName = displayName (serverInfo s)\<rparr>) ss"

fun storageFormatToServers :: "StorageItem list \<Rightarrow> StoredServer list" where
  "storageFormatToServers [] = []"
| "storageFormatToServers (s # items) =
     (case parseUri (item_uri s) (item_displayName s) of
        None \<Rightarrow> storageFormatToServers items
      | Some server \<Rightarrow>
          \<lparr>handle = item_handle s, uri = item_uri s, serverInfo = server\<rparr>
            # storageFormatToServers items)"

text \<open>
  The three mutations. Each has a part that runs at once, inside the call, and a body
  appended to the promise chain \<open>updatePromise\<close>.
\<close>

datatype update = Add StoredServer | Remove string | Clear

text \<open>
  The store's state: the cache \<open>servers\<close> (\<open>None\<close> is \<open>undefined\<close>), the payload in the
  encrypted storage, the bodies chained on \<open>updatePromise\<close> that have not run yet (oldest
  first), and a counter of the calls of \<open>encryptedStorage.retrieve\<close>.
\<close>

record NewStorage =
  servers :: "StoredServer list option"
  encryptedStorage :: stored_text
  updatePromise :: "update list"
  retrieveCalls :: nat

definition getServers :: "bool \<Rightarrow> NewStorage \<Rightarrow> StoredServer list \<times> NewStorage" where
  "getServers ignoreCache st =
     (case (if ignoreCache then None else servers st) of
        Some cached \<Rightarrow> (cached, st)
      | None \<Rightarrow>
          (let data = encryptedStorage st;
               st1 = st\<lparr>retrieveCalls := retrieveCalls st + 1\<rparr>
           in if data = NoData \<or> data = JsonText [] then ([], st1)
              else (case JSON_parse data of
                      None \<Rightarrow> ([], st1)
                    | Some items \<Rightarrow>
                        (let loaded = storageFormatToServers items
                         in (loaded, st1\<lparr>servers := Some loaded\<rparr>)))))"

text \<open>The part of each mutation that runs inside the call.\<close>

fun optimistic :: "update \<Rightarrow> NewStorage \<Rightarrow> NewStorage" where
  "optimistic (Add server) st =
     (case servers st of
        None \<Rightarrow> st
      | Some ss \<Rightarrow> st\<lparr>servers := Some (filter (\<lambda>s. handle s \<noteq> handle server) ss @ [server])\<rparr>)"
| "optimistic (Remove h) st =
     (case servers st of
        None \<Rightarrow> st
      | Some ss \<Rightarrow> st\<lparr>servers := Some (filter (\<lambda>s. handle s \<noteq> h) ss)\<rparr>)"
| "optimistic Clear st = st\<lparr>servers := Some []\<rparr>"

text \<open>The body each mutation chains on \<open>updatePromise\<close>.\<close>

fun body :: "update \<Rightarrow> NewStorage \<Rightarrow> NewStorage" where
  "body (Add server) st =
     (let (loaded, st1) = getServers True st;
          ss = loaded @ [server]
      in st1\<lparr>servers := Some ss,
             encryptedStorage := JSON_stringify (serverToStorageFormat ss)\<rparr>)"
| "body (Remove h) st =
     (let (loaded, st1) = getServers True st;
          ss = filter (\<lambda>s. handle s \<noteq> h) loaded
      in st1\<lparr>servers := Some ss,
             encryptedStorage := JSON_stringify (serverToStorageFormat ss)\<rparr>)"
| "body Clear st = st\<lparr>servers := Some [], encryptedStorage := NoData\<rparr>"

text \<open>
  Issuing a mutation without awaiting it: the optimistic part runs and the body joins the
  chain. The chain runs one body at a time, oldest first, each to its end before the
  next starts; \<open>runNext\<close> is one such turn and \<open>settle\<close> runs the chain until it is empty,
  which is what awaiting the promise returned by the last call does.
\<close>

definition issue :: "update \<Rightarrow> NewStorage \<Rightarrow> NewStorage" where
  "issue u st = (let st1 = optimistic u st in st1\<lparr>updatePromise := updatePromise st1 @ [u]\<rparr>)"

definition runNext :: "NewStorage \<Rightarrow> NewStorage" where
  "runNext st =
     (case updatePromise st of
        [] \<Rightarrow> st
      | u # rest \<Rightarrow> body u (st\<lparr>updatePromise := rest\<rparr>))"

fun runBodies :: "update list \<Rightarrow> NewStorage \<Rightarrow> NewStorage" where
  "runBodies [] st = st"
| "runBodies (u # us) st = runBodies us (body u st)"

definition settle :: "NewStorage \<Rightarrow> NewStorage" where
  "settle st = runBodies (updatePromise st) (st\<lparr>updatePromise := []\<rparr>)"

text \<open>\<open>await store.add(server)\<close>, \<open>await store.remove(h)\<close>, \<open>await store.clear()\<close>.\<close>

definition add :: "StoredServer \<Rightarrow> NewStorage \<Rightarrow> NewStorage" where
  "add server st = settle (issue (Add server) st)"

definition remove :: "string \<Rightarrow> NewStorage \<Rightarrow> NewStorage" where
  "remove h st = settle (issue (Remove h) st)"

definition clear :: "NewStorage \<Rightarrow> NewStorage" where
  "clear st = settle (issue Clear st)"

text \<open>
  A schedule interleaves calls with turns of the chain: \<open>Call u\<close> issues \<open>u\<close>, \<open>Turn\<close>
  lets the oldest pending body run.
\<close>

datatype event = Call update | Turn

fun run :: "event list \<Rightarrow> NewStorage \<Rightarrow> NewStorage" where
  "run [] st = st"
| "run (Call u # evs) st = run evs (issue u st)"
| "run (Turn # evs) st = run evs (runNext st)"

fun calls :: "event list \<Rightarrow> update list" where
  "calls [] = []"
| "calls (Call u # evs) = u # calls evs"
| "calls (Turn # evs) = calls evs"

definition newStore :: "stored_text \<Rightarrow> NewStorage" where
  "newStore data = \<lparr>servers = None, encryptedStorage = data, updatePromise = [], retrieveCalls = 0\<rparr>"

section \<open>Errors and rejected promises\<close>

text \<open>
  Values the sources throw or reject promises with. \<open>InputFlowAction.back\<close> and
  \<open>InputFlowAction.cancel\<close> are both thrown (as navigation signals) and returned.
  \<open>SelfCertsError\<close> and \<open>SelfCertsExpiredError\<close> are the errors the two classifiers
  \<open>isSelfCertsError\<close> and \<open>isSelfCertsExpiredError\<close> recognise; \<open>TypeError msg\<close> is what the
  runtime raises on a property access on \<open>undefined\<close> and on \<open>new URL\<close> of an invalid
  text; \<open>Error msg\<close> is any other error, with its message.
\<close>

datatype InputFlowAction = Back | Cancel

datatype error =
    CancellationError
  | Flow InputFlowAction
  | SelfCertsError
  | SelfCertsExpiredError
  | KernelAPIAccessRevoked
  | TypeError string
  | Error string

datatype 'a outcome = Resolved 'a | Rejected error

section \<open>Credential/URI codec: \<open>getBaseJupyterUrl\<close>\<close>

text \<open>
  The fetch primitive is an external collaborator: it either throws or answers with a
  response, of which only the \<open>location\<close> header is read. Every request the function
  makes is returned beside its result, so that "no network call" can be stated.
\<close>

datatype fetch_result = FetchThrows | Response "string option"

record request =
  request_url :: string
  request_method :: string
  request_redirect :: string

text \<open>\<open>parseUri(url, '')?.baseUrl || url\<close>\<close>

definition strippedUrl :: "string \<Rightarrow> string" where
  "strippedUrl url0 = (case parseUri url0 [] of None \<Rightarrow> url0 | Some p \<Rightarrow> orElse (baseUrl p) url0)"

text \<open>\<open>url.indexOf('token=') > 0 ? url.substring(0, url.indexOf('token=')) : url\<close>\<close>

definition urlWithoutToken :: "string \<Rightarrow> string" where
  "urlWithoutToken u =
     (if indexOf u ''token='' > 0 then substring0 u (indexOf u ''token='') else u)"

definition getBaseJupyterUrl ::
    "(string \<Rightarrow> fetch_result) \<Rightarrow> string \<Rightarrow> string option \<times> request list" where
  "getBaseJupyterUrl fetch url0 =
     (let url = strippedUrl url0
      in case newURL url of
           None \<Rightarrow> (None, [])
         | Some u \<Rightarrow>
             if pathname u = ''/'' then (Some url, [])
             else
               (let req = \<lparr>request_url = urlWithoutToken url, request_method = ''GET'',
                           request_redirect = ''manual''\<rparr>
                in case fetch (urlWithoutToken url) of
                     FetchThrows \<Rightarrow> (None, [req])
                   | Response None \<Rightarrow> (None, [req])
                   | Response (Some loginPage) \<Rightarrow>
                       if loginPage \<noteq> [] \<and> includes_str loginPage ''login?''
                       then (Some (substring0 loginPage (indexOf loginPage ''login?'')), [req])
                       else (None, [req])))"

section \<open>The URL input: \<open>parseUserUriAndGetValidationError\<close>\<close>

text \<open>
  Validation messages. The localised texts of \<open>DataScience\<close> are declared elsewhere;
  each is a constructor, and \<open>NoMessage\<close> is the empty string, the only falsy one.
  \<open>ConnectionFailed web txt\<close> is \<open>remoteJupyterConnectionFailedWithoutServerWithError(txt)\<close>,
  in its web variant when \<open>web\<close> holds.
\<close>

datatype message =
    NoMessage
  | InvalidURI
  | MustBeHttpOrHttps
  | SelfCertFailErrorMessageOnly
  | SelfCertExpiredErrorMessageOnly
  | PasswordFailure
  | ConnectionFailed bool string

definition endsWith :: "string \<Rightarrow> string \<Rightarrow> bool" where
  "endsWith s p = startsWith (rev s) (rev p)"

text \<open>\<open>value.replace(/\/(lab|tree)(\??)$/, '')\<close>\<close>

definition stripLabTree :: "string \<Rightarrow> string" where
  "stripLabTree s =
     (if endsWith s ''/lab?'' then take (length s - 5) s
      else if endsWith s ''/lab'' then take (length s - 4) s
      else if endsWith s ''/tree?'' then take (length s - 6) s
      else if endsWith s ''/tree'' then take (length s - 5) s
      else s)"

datatype validation = ValidationError message | Valid IJupyterServerUri string

definition parseUserUriAndGetValidationError ::
    "(string \<Rightarrow> fetch_result) \<Rightarrow> string \<Rightarrow> validation \<times> request list" where
  "parseUserUriAndGetValidationError fetch v =
     (let uri = stripLabTree (trim v)
      in case parseUri uri [] of
           None \<Rightarrow> (ValidationError InvalidURI, [])
         | Some jupyterServerUri \<Rightarrow>
             (let (base, reqs) = getBaseJupyterUrl fetch uri;
                  jupyterServerUri' = jupyterServerUri
                    \<lparr>baseUrl := (case base of None \<Rightarrow> baseUrl jupyterServerUri
                                 | Some b \<Rightarrow> orElse b (baseUrl jupyterServerUri))\<rparr>
              in if \<not> startsWith (toLowerCase uri) ''http:'' \<and> \<not> startsWith (toLowerCase uri) ''https:''
                 then (ValidationError MustBeHttpOrHttps, reqs)
                 else (Valid jupyterServerUri' uri, reqs)))"

section \<open>Insecure-connection gate and display-name prompter\<close>

text \<open>
  What the user does with a quick pick or an input box: accept it (with the selected
  labels, or the text typed), hide it, or press the Back button. \<open>Common.bannerLabelYes\<close>
  is a localised label declared elsewhere; it is the parameter \<open>yes\<close>.
\<close>

datatype 'a user_action = Accept 'a | Hide | PressBack

text \<open>
  The gate reads the global memento key \<open>DataScienceAllowInsecureConnections\<close> (default
  \<open>false\<close>): \<open>globalMemento\<close> is the value stored under that key. The result is the
  promise's outcome, whether the quick pick was shown, and the memento after the call:
  nothing in the function writes it.
\<close>

definition promptToUseInsecureConnections ::
    "string \<Rightarrow> bool \<Rightarrow> string list user_action \<Rightarrow> bool outcome \<times> bool \<times> bool" where
  "promptToUseInsecureConnections yes globalMemento act =
     (if globalMemento then (Resolved True, False, globalMemento)
      else (case act of
              Accept selectedItems \<Rightarrow>
                (Resolved (list_ex (\<lambda>l. l = yes) selectedItems), True, globalMemento)
            | Hide \<Rightarrow> (Rejected (Flow Cancel), True, globalMemento)
            | PressBack \<Rightarrow> (Rejected (Flow Back), True, globalMemento)))"

definition getDisplayName ::
    "string \<Rightarrow> string \<Rightarrow> string user_action \<Rightarrow> (string \<times> string) list
       \<Rightarrow> string outcome \<times> (string \<times> string) list" where
  "getDisplayName h defaultValue act displayNamesOfHandles =
     (case act of
        Accept v \<Rightarrow>
          (let dn = orElse (trim v) defaultValue
           in (Resolved dn, AList.update h dn displayNamesOfHandles))
      | Hide \<Rightarrow> (Rejected (Flow Cancel), displayNamesOfHandles)
      | PressBack \<Rightarrow> (Rejected (Flow Back), displayNamesOfHandles))"

section \<open>Capture workflow: \<open>captureRemoteJupyterUrl\<close>\<close>

datatype Steps = GetUrl | CheckPasswords | CheckInsecureConnections | VerifyConnection | GetDisplayName

datatype failure_reason = ConnectionFailure | InsecureHTTP | SelfCert | ExpiredCert | AuthFailure

text \<open>
  What the workflow asks of its collaborators, in the order it asks: the URL input box
  (initial value, validation message), the hub probe (base URL), the password negotiator
  (URL, \<open>isTokenEmpty\<close>, handle, validation message), the insecure-connection quick pick,
  the connectivity probe (handle, descriptor), the display-name input box (handle,
  default), \<open>sendRemoteTelemetryForAdditionOfNewRemoteServer\<close> (handle, base URL,
  failure reason), the change event and the display-name tracker.
\<close>

datatype effect =
    UrlInputShown string message
  | HubProbed string
  | HubExtensionRecommended
  | PasswordRequested string bool string message
  | InsecurePromptShown
  | RemoteUriValidated string IJupyterServerUri
  | DisplayNameInputShown string string
  | Telemetry string string "failure_reason option"
  | HandlesChanged
  | DisplayNameTracked string string

text \<open>The local variables of the function, with the display-name registry and the log.\<close>

record CaptureSession =
  jupyterServerUri :: IJupyterServerUri
  validationErrorMessage :: message
  requiresPassword :: bool
  isInsecureConnection :: bool
  session_handle :: string
  nextStep :: Steps
  previousStep :: "Steps option"
  url :: string
  initialUrlWasValid :: bool
  failedUrlPasswordCapture :: bool
  displayNamesOfHandles :: "(string \<times> string) list"
  effects :: "effect list"

text \<open>
  What the collaborators answer during one turn of the \<open>while (true)\<close> loop: the fresh
  UUID, the outcome of \<open>getUrlFromUser\<close> (the URL text and descriptor of the input the
  user finally accepted, or the rejection), the state of the cancellation token at the
  four checkpoints, the outcomes of \<open>isJupyterHub\<close>, \<open>getPasswordConnectionInfo\<close>
  (\<open>requiresPassword\<close>, \<open>requestHeaders\<close>) and \<open>validateRemoteUri\<close>, and what the user
  does with the insecure-connection quick pick and the display-name box.
\<close>

record Answers =
  uuid :: string
  urlFromUser :: "(string \<times> IJupyterServerUri) outcome"
  cancelledAfterUrl :: bool
  hub :: "bool outcome"
  passwordInfo :: "(bool \<times> (string \<times> string) list option) outcome"
  cancelledAfterPasswords :: bool
  insecurePick :: "string list user_action"
  cancelledAfterInsecure :: bool
  remoteUri :: "unit outcome"
  cancelledAfterVerify :: bool
  displayNameInput :: "string user_action"

text \<open>
  What stays fixed during one call: the pre-supplied URL, \<open>isWebExtension()\<close>, the label
  of the Yes item, the memento flag the insecure-connection gate reads (the workflow
  never writes it) and the fetch primitive.
\<close>

record Env =
  initialUrl :: string
  web :: bool
  bannerLabelYes :: string
  allowInsecure :: bool
  fetcher :: "string \<Rightarrow> fetch_result"

datatype capture_result = Handle string | Action InputFlowAction

text \<open>
  How a block of the loop body ends: it falls through to the next statement, or it
  executes \<open>continue\<close>, \<open>break\<close>, \<open>return\<close> or \<open>throw\<close>.
\<close>

datatype flow =
    Go CaptureSession
  | Continue CaptureSession
  | Break CaptureSession
  | Return capture_result CaptureSession
  | Throw error CaptureSession

fun andThen :: "flow \<Rightarrow> (CaptureSession \<Rightarrow> flow) \<Rightarrow> flow" where
  "andThen (Go s) f = f s"
| "andThen (Continue s) f = Continue s"
| "andThen (Break s) f = Break s"
| "andThen (Return r s) f = Return r s"
| "andThen (Throw e s) f = Throw e s"

definition emit :: "effect \<Rightarrow> CaptureSession \<Rightarrow> CaptureSession" where
  "emit e s = s\<lparr>effects := effects s @ [e]\<rparr>"

definition sendTelemetry :: "failure_reason option \<Rightarrow> CaptureSession \<Rightarrow> CaptureSession" where
  "sendTelemetry reason s =
     emit (Telemetry (session_handle s) (baseUrl (jupyterServerUri s)) reason) s"

definition tokenIsEmpty :: "CaptureSession \<Rightarrow> bool" where
  "tokenIsEmpty s = (token (jupyterServerUri s) = [])"

text \<open>\<open>initialUrlWasValid && initialUrl ? undefined : 'Get Url'\<close>\<close>

definition backToUrl :: "Env \<Rightarrow> CaptureSession \<Rightarrow> Steps option" where
  "backToUrl env s = (if initialUrlWasValid s \<and> initialUrl env \<noteq> [] then None else Some GetUrl)"

definition isNavigation :: "error \<Rightarrow> bool" where
  "isNavigation err = (err = CancellationError \<or> err = Flow Back \<or> err = Flow Cancel)"

text \<open>\<open>err.message\<close> and \<open>err.message || err.toString()\<close> of an error that is no navigation signal.\<close>

fun messageOf :: "error \<Rightarrow> string" where
  "messageOf (Error m) = m"
| "messageOf (TypeError m) = m"
| "messageOf KernelAPIAccessRevoked = ''Access to Jupyter Kernel has been revoked''"
| "messageOf CancellationError = ''Canceled''"
| "messageOf SelfCertsError = []"
| "messageOf SelfCertsExpiredError = []"
| "messageOf (Flow a) = []"

fun errorName :: "error \<Rightarrow> string" where
  "errorName (TypeError m) = ''TypeError''"
| "errorName KernelAPIAccessRevoked = ''vscode.jupyter.apiAccessRevoked''"
| "errorName e = ''Error''"

definition errorText :: "error \<Rightarrow> string" where
  "errorText err = orElse (messageOf err) (errorName err)"

text \<open>\<open>text.replace(/(https?:\/\/[^\s]+)/g, (url) => `[${url}](${url})`)\<close>\<close>

function linkify :: "string \<Rightarrow> string" where
  "linkify [] = []"
| "linkify (c # cs) =
     (if (startsWith (c # cs) ''http://'' \<or> startsWith (c # cs) ''https://'')
         \<and> takeWhile (\<lambda>x. \<not> isBlank x) (drop (if startsWith (c # cs) ''http://'' then 7 else 8) (c # cs)) \<noteq> []
      then ''['' @ takeWhile (\<lambda>x. \<not> isBlank x) (c # cs) @ '']('' @ takeWhile (\<lambda>x. \<not> isBlank x) (c # cs) @ '')''
             @ linkify (dropWhile (\<lambda>x. \<not> isBlank x) cs)
      else c # linkify cs)"
  by pat_completeness auto
termination
  by (relation "measure length") (auto simp: length_dropWhile_le less_Suc_eq_le)

definition connectionFailedMessage :: "Env \<Rightarrow> error \<Rightarrow> message" where
  "connectionFailedMessage env err = ConnectionFailed (web env) (linkify (errorText err))"

definition checkpoint :: "bool \<Rightarrow> CaptureSession \<Rightarrow> flow" where
  "checkpoint isCancellationRequested s =
     (if isCancellationRequested then Return (Action Cancel) s else Go s)"

definition stepGetUrl :: "Env \<Rightarrow> Answers \<Rightarrow> CaptureSession \<Rightarrow> flow" where
  "stepGetUrl env a s =
     (if nextStep s \<noteq> GetUrl then Go s
      else
        (let errorMessage = validationErrorMessage s;
             s1 = s\<lparr>initialUrlWasValid := False, nextStep := CheckPasswords,
                    previousStep := None, validationErrorMessage := NoMessage\<rparr>;
             s2 = emit (UrlInputShown (orElse (url s1) (initialUrl env)) errorMessage) s1
         in case urlFromUser a of
              Rejected err \<Rightarrow> Throw err s2
            | Resolved (u, parsed) \<Rightarrow> Go (s2\<lparr>jupyterServerUri := parsed, url := u\<rparr>)))"

definition stepCheckPasswords :: "Env \<Rightarrow> Answers \<Rightarrow> CaptureSession \<Rightarrow> flow" where
  "stepCheckPasswords env a s =
     (if nextStep s \<noteq> CheckPasswords then Go s
      else
        (let errorMessage = validationErrorMessage s;
             s1 = s\<lparr>nextStep := CheckInsecureConnections, previousStep := backToUrl env s,
                    validationErrorMessage := NoMessage\<rparr>;
             base = baseUrl (jupyterServerUri s1);
             ask = PasswordRequested base (tokenIsEmpty s1) (session_handle s1) errorMessage;
             (answer, s2) =
               (if tokenIsEmpty s1
                then (case hub a of
                        Rejected err \<Rightarrow> (Rejected err, emit (HubProbed base) s1)
                      | Resolved True \<Rightarrow>
                          (Rejected CancellationError,
                           emit HubExtensionRecommended (emit (HubProbed base) s1))
                      | Resolved False \<Rightarrow> (passwordInfo a, emit ask (emit (HubProbed base) s1)))
                else (passwordInfo a, emit ask s1))
         in case answer of
              Resolved (required, requestHeaders) \<Rightarrow>
                Go (s2\<lparr>requiresPassword := required,
                       jupyterServerUri := (jupyterServerUri s2)\<lparr>authorizationHeader := requestHeaders\<rparr>,
                       failedUrlPasswordCapture := False\<rparr>)
            | Rejected err \<Rightarrow>
                (let s3 = s2\<lparr>failedUrlPasswordCapture := False\<rparr>
                 in if isNavigation err then Throw err s3
                    else if err = SelfCertsError then Go s3
                    else if err = SelfCertsExpiredError then Go s3
                    else
                      (let s4 = (sendTelemetry (Some ConnectionFailure) s3)
                                  \<lparr>validationErrorMessage := connectionFailedMessage env err\<rparr>
                       in if \<not> tokenIsEmpty s4
                             \<and> toLowerCase (messageOf err) = toLowerCase ''Failed to fetch''
                          then Go (s4\<lparr>failedUrlPasswordCapture := True\<rparr>)
                          else Continue (s4\<lparr>nextStep := GetUrl\<rparr>)))))"

definition stepCheckInsecureConnections :: "Env \<Rightarrow> Answers \<Rightarrow> CaptureSession \<Rightarrow> flow" where
  "stepCheckInsecureConnections env a s =
     (if nextStep s \<noteq> CheckInsecureConnections then Go s
      else
        (let s1 = s\<lparr>nextStep := VerifyConnection,
                    previousStep := (if requiresPassword s \<and> tokenIsEmpty s then Some CheckPasswords
                                     else backToUrl env s)\<rparr>
         in if \<not> requiresPassword s1 \<and> tokenIsEmpty s1
            then (case newURL (baseUrl (jupyterServerUri s1)) of
                    None \<Rightarrow> Throw (TypeError ''Invalid URL'') s1
                  | Some u \<Rightarrow>
                      if toLowerCase (protocol u) = ''http:''
                      then
                        (let s2 = s1\<lparr>isInsecureConnection := True\<rparr>;
                             (answer, shown, memento) =
                               promptToUseInsecureConnections (bannerLabelYes env) (allowInsecure env)
                                 (insecurePick a);
                             s3 = (if shown then emit InsecurePromptShown s2 else s2)
                         in case answer of
                              Rejected err \<Rightarrow> Throw err s3
                            | Resolved proceed \<Rightarrow>
                                if \<not> proceed
                                then Return (Action Cancel) (sendTelemetry (Some InsecureHTTP) s3)
                                else Go s3)
                      else Go s1)
            else Go s1))"

definition stepVerifyConnection :: "Env \<Rightarrow> Answers \<Rightarrow> CaptureSession \<Rightarrow> flow" where
  "stepVerifyConnection env a s =
     (if nextStep s \<noteq> VerifyConnection then Go s
      else
        (let s1 = emit (RemoteUriValidated (session_handle s) (jupyterServerUri s))
                    (s\<lparr>nextStep := GetDisplayName\<rparr>)
         in case remoteUri a of
              Resolved _ \<Rightarrow> Go s1
            | Rejected err \<Rightarrow>
                if failedUrlPasswordCapture s1 \<and> validationErrorMessage s1 \<noteq> NoMessage
                then Continue (s1\<lparr>nextStep := GetUrl\<rparr>)
                else if isNavigation err then Throw err s1
                else if err = SelfCertsError
                then Continue (sendTelemetry (Some SelfCert)
                       (s1\<lparr>validationErrorMessage := SelfCertFailErrorMessageOnly, nextStep := GetUrl\<rparr>))
                else if err = SelfCertsExpiredError
                then Continue (sendTelemetry (Some ExpiredCert)
                       (s1\<lparr>validationErrorMessage := SelfCertExpiredErrorMessageOnly, nextStep := GetUrl\<rparr>))
                else if requiresPassword s1 \<and> tokenIsEmpty s1
                then Continue (sendTelemetry (Some AuthFailure)
                       (s1\<lparr>validationErrorMessage := PasswordFailure, nextStep := CheckPasswords\<rparr>))
                else Continue
                       ((sendTelemetry (Some ConnectionFailure) s1)
                          \<lparr>validationErrorMessage := connectionFailedMessage env err, nextStep := GetUrl\<rparr>)))"

definition stepGetDisplayName :: "Env \<Rightarrow> Answers \<Rightarrow> CaptureSession \<Rightarrow> flow" where
  "stepGetDisplayName env a s =
     (if nextStep s \<noteq> GetDisplayName then Go s
      else
        (let s1 = s\<lparr>previousStep :=
                      (if isInsecureConnection s then Some CheckInsecureConnections
                       else if requiresPassword s \<and> tokenIsEmpty s then Some CheckPasswords
                       else backToUrl env s)\<rparr>;
             defaultValue =
               (if displayName (jupyterServerUri s1) \<noteq> [] then Some (displayName (jupyterServerUri s1))
                else map_option hostname (newURL (baseUrl (jupyterServerUri s1))))
         in case defaultValue of
              None \<Rightarrow> Throw (TypeError ''Invalid URL'') s1
            | Some d \<Rightarrow>
                (let (answer, registry) =
                       getDisplayName (session_handle s1) d (displayNameInput a) (displayNamesOfHandles s1);
                     s2 = emit (DisplayNameInputShown (session_handle s1) d)
                            (s1\<lparr>displayNamesOfHandles := registry\<rparr>)
                 in case answer of
                      Rejected err \<Rightarrow> Throw err s2
                    | Resolved dn \<Rightarrow>
                        Break (s2\<lparr>jupyterServerUri := (jupyterServerUri s2)\<lparr>displayName := dn\<rparr>\<rparr>))))"

text \<open>The \<open>catch (ex)\<close> clause that closes the loop body.\<close>

fun onCatch :: "flow \<Rightarrow> flow" where
  "onCatch (Throw ex s) =
     (if ex = CancellationError \<or> ex = Flow Cancel then Return (Action Cancel) s
      else if ex = Flow Back
      then (case previousStep s of
              None \<Rightarrow> Return (Action Back) s
            | Some p \<Rightarrow> Continue (s\<lparr>nextStep := p\<rparr>))
      else Throw ex s)"
| "onCatch f = f"

text \<open>
  One turn of the loop, statement by statement: each step is followed by a check of the
  cancellation token, and the \<open>catch\<close> clause sees whatever a step throws.
\<close>

definition throughUrl :: "Env \<Rightarrow> Answers \<Rightarrow> CaptureSession \<Rightarrow> flow" where
  "throughUrl env a s =
     andThen (stepGetUrl env a (s\<lparr>session_handle := uuid a\<rparr>)) (checkpoint (cancelledAfterUrl a))"

definition throughPasswords :: "Env \<Rightarrow> Answers \<Rightarrow> CaptureSession \<Rightarrow> flow" where
  "throughPasswords env a s =
     andThen (andThen (throughUrl env a s) (stepCheckPasswords env a))
       (checkpoint (cancelledAfterPasswords a))"

definition throughInsecure :: "Env \<Rightarrow> Answers \<Rightarrow> CaptureSession \<Rightarrow> flow" where
  "throughInsecure env a s =
     andThen (andThen (throughPasswords env a s) (stepCheckInsecureConnections env a))
       (checkpoint (cancelledAfterInsecure a))"

definition throughVerify :: "Env \<Rightarrow> Answers \<Rightarrow> CaptureSession \<Rightarrow> flow" where
  "throughVerify env a s =
     andThen (andThen (throughInsecure env a s) (stepVerifyConnection env a))
       (checkpoint (cancelledAfterVerify a))"

definition iteration :: "Env \<Rightarrow> Answers \<Rightarrow> CaptureSession \<Rightarrow> flow" where
  "iteration env a s = onCatch (andThen (throughVerify env a s) (stepGetDisplayName env a))"

text \<open>
  The loop, driven by the answers of one turn after the other. It ends with the first
  turn that breaks, returns or throws; \<open>None\<close> means that the answers supplied were used
  up while the loop was still running.
\<close>

fun loop :: "Env \<Rightarrow> Answers list \<Rightarrow> CaptureSession \<Rightarrow> flow option" where
  "loop env [] s = None"
| "loop env (a # as) s =
     (case iteration env a s of
        Go s' \<Rightarrow> loop env as s'
      | Continue s' \<Rightarrow> loop env as s'
      | Break s' \<Rightarrow> Some (Break s')
      | Return r s' \<Rightarrow> Some (Return r s')
      | Throw e s' \<Rightarrow> Some (Throw e s'))"

text \<open>The variables as declared, then the check of a pre-supplied URL.\<close>

definition initialSession :: "(string \<times> string) list \<Rightarrow> Env \<Rightarrow> CaptureSession" where
  "initialSession registry env =
     \<lparr>jupyterServerUri = \<lparr>baseUrl = [], token = [], displayName = [], authorizationHeader = None\<rparr>,
      validationErrorMessage = NoMessage, requiresPassword = False, isInsecureConnection = False,
      session_handle = [], nextStep = GetUrl, previousStep = Some GetUrl, url = initialUrl env,
      initialUrlWasValid = False, failedUrlPasswordCapture = False,
      displayNamesOfHandles = registry, effects = []\<rparr>"

definition seed :: "Env \<Rightarrow> CaptureSession \<Rightarrow> CaptureSession" where
  "seed env s =
     (if initialUrl env = [] then s
      else (case fst (parseUserUriAndGetValidationError (fetcher env) (initialUrl env)) of
              ValidationError m \<Rightarrow> s\<lparr>validationErrorMessage := m, nextStep := GetUrl\<rparr>
            | Valid parsed u \<Rightarrow>
                s\<lparr>initialUrlWasValid := True, jupyterServerUri := parsed, nextStep := CheckPasswords\<rparr>))"

text \<open>
  \<open>initializeServers\<close>: the first call starts a load of the store (and does not wait for
  it); later calls find \<open>_cachedServerInfoInitialized\<close> set and do nothing.
\<close>

definition initializeServers :: "bool \<Rightarrow> NewStorage \<Rightarrow> NewStorage" where
  "initializeServers cachedServerInfoInitialized store =
     (if cachedServerInfoInitialized then store else snd (getServers False store))"

text \<open>
  The whole function. Its result is the value returned or the error thrown, with the
  final session and store; \<open>None\<close> as for \<open>loop\<close>. \<open>cancelledAtEnd\<close> is the cancellation
  token at the checkpoint after the loop, \<open>initialized\<close> says whether the provider has
  run \<open>initializeServers\<close> before.
\<close>

definition captureRemoteJupyterUrl ::
    "Env \<Rightarrow> Answers list \<Rightarrow> bool \<Rightarrow> (string \<times> string) list \<Rightarrow> bool \<Rightarrow> NewStorage
       \<Rightarrow> (capture_result outcome \<times> CaptureSession \<times> NewStorage) option" where
  "captureRemoteJupyterUrl env answers cancelledAtEnd registry initialized store0 =
     (let store = initializeServers initialized store0
      in case loop env answers (seed env (initialSession registry env)) of
        None \<Rightarrow> None
      | Some (Break s) \<Rightarrow>
          if cancelledAtEnd then Some (Resolved (Action Cancel), s, store)
          else
            (let store' = add \<lparr>handle = session_handle s, uri = url s,
                                serverInfo = jupyterServerUri s\<rparr> store;
                 s1 = emit HandlesChanged s;
                 s2 = emit (DisplayNameTracked (session_handle s1) (displayName (jupyterServerUri s1))) s1;
                 s3 = sendTelemetry None s2
             in Some (Resolved (Handle (session_handle s3)), s3, store'))
      | Some (Return r s) \<Rightarrow> Some (Resolved r, s, store)
      | Some (Throw e s) \<Rightarrow>
          if e = CancellationError then Some (Resolved (Action Cancel), s, store)
          else Some (Rejected e, s, store)
      | Some (Go s) \<Rightarrow> None
      | Some (Continue s) \<Rightarrow> None)"

section \<open>Execution multiplexer: \<open>WrappedKernelPerExtension\<close>\<close>

record OutputItem =
  mime :: string
  item_data :: string

text \<open>The record a chat output carries under the key \<open>metadata\<close> of its metadata.\<close>

record Metadata =
  md_id :: string
  md_function :: string
  dataIsNone :: bool

text \<open>
  An output: its items and its metadata object (\<open>None\<close> is \<open>undefined\<close>), of which only
  the entry \<open>metadata\<close> is read.
\<close>

record Output =
  output_items :: "OutputItem list"
  output_metadata :: "(string \<times> Metadata) list option"

text \<open>
  Modelled from the spec: the distinguished mime type of chat-protocol payloads. The
  constant \<open>ChatMime\<close> is declared in \<open>kernels/chat/generator\<close>, not in the files
  embedded here; the text below stands for it.
\<close>

definition ChatMime :: string where
  "ChatMime = ''application/vnd.vscode.chat_message''"


text \<open>
  Code sent to the kernel: the caller's text, or the text that
  \<open>generatePythonCodeToInvokeCallback(id, result)\<close> builds (the generator is declared
  elsewhere; its result is kept symbolic).
\<close>

datatype code = Code string | InvokeCallback string "string option"

text \<open>
  The shared execution queue answers each \<open>executeCode(code, ...)\<close> with a stream: the
  outputs it yields, then its end, \<open>None\<close> for a normal end and \<open>Some e\<close> for an error
  thrown by the stream. A handler table maps a function name to a handler, which
  resolves to a text or \<open>undefined\<close>, or rejects; it is read as a table of its own keys.
\<close>

type_synonym stream = "Output list \<times> error option"

type_synonym handlers = "string \<Rightarrow> (string option \<Rightarrow> string option outcome) option"

definition hasChatOutput :: "Output \<Rightarrow> bool" where
  "hasChatOutput out = list_ex (\<lambda>i. mime i = ChatMime) (output_items out)"

text \<open>\<open>output.items.forEach((output) => mimeTypes.add(output.mime))\<close> on an insertion-ordered set.\<close>

definition addMimeTypes :: "string list \<Rightarrow> Output \<Rightarrow> string list" where
  "addMimeTypes mimeTypes out =
     foldl (\<lambda>ms i. if mime i \<in> set ms then ms else ms @ [mime i]) mimeTypes (output_items out)"

text \<open>
  The first half of \<open>handleChatOutput\<close>, up to the code to send back: it returns without
  yielding (\<open>NoChat\<close>), throws (\<open>ChatThrows\<close>) or has a callback to invoke (\<open>Reinject\<close>).
\<close>

datatype chat_request = NoChat | ChatThrows error | Reinject code

definition chatRequest :: "handlers \<Rightarrow> Output \<Rightarrow> chat_request" where
  "chatRequest hs out =
     (case find (\<lambda>i. mime i = ChatMime) (output_items out) of
        None \<Rightarrow> NoChat
      | Some chatOutput \<Rightarrow>
          (case map_of (case output_metadata out of None \<Rightarrow> [] | Some m \<Rightarrow> m) ''metadata'' of
             None \<Rightarrow> ChatThrows (TypeError ''Cannot read properties of undefined (reading 'function')'')
           | Some md \<Rightarrow>
               (let functionId = md_function md;
                    payload = (if dataIsNone md then None else Some (item_data chatOutput))
                in case hs functionId of
                     None \<Rightarrow> ChatThrows (Error (''Chat Function '' @ functionId @ '' not found''))
                   | Some handler \<Rightarrow>
                       (case handler payload of
                          Rejected e \<Rightarrow> ChatThrows e
                        | Resolved result \<Rightarrow> Reinject (InvokeCallback (md_id md) result)))))"

text \<open>
  A generator's run: the outputs it yields, how it ends, and the mime types seen.
  \<open>relay\<close> is the \<open>for await\<close> loop over a stream, which \<open>executeCodeInternal\<close> and
  \<open>handleChatOutput\<close> both contain (the former also registers each output with the
  display-id tracker, which is not modelled). \<open>relay\<close> and \<open>handleChatOutput\<close> call each
  other, and the first argument bounds the depth of nested callbacks: \<open>None\<close> means the
  bound was reached.
\<close>

type_synonym generated = "Output list \<times> error option \<times> string list"

definition yielding :: "Output list \<Rightarrow> generated option \<Rightarrow> generated option" where
  "yielding ys r = map_option (\<lambda>(zs, e, ms). (ys @ zs, e, ms)) r"

fun relay :: "nat \<Rightarrow> handlers \<Rightarrow> (code \<Rightarrow> stream) \<Rightarrow> Output list \<Rightarrow> error option \<Rightarrow> string list
                \<Rightarrow> generated option"
and handleChatOutput :: "nat \<Rightarrow> handlers \<Rightarrow> (code \<Rightarrow> stream) \<Rightarrow> string list \<Rightarrow> Output
                \<Rightarrow> generated option" where
  "relay n hs exec [] ending mimeTypes = Some ([], ending, mimeTypes)"
| "relay n hs exec (out # outs) ending mimeTypes =
     (if hasChatOutput out
      then (case handleChatOutput n hs exec (addMimeTypes mimeTypes out) out of
              None \<Rightarrow> None
            | Some (ys, Some e, ms) \<Rightarrow> Some (ys, Some e, ms)
            | Some (ys, None, ms) \<Rightarrow> yielding ys (relay n hs exec outs ending ms))
      else yielding [out] (relay n hs exec outs ending (addMimeTypes mimeTypes out)))"
| "handleChatOutput 0 hs exec mimeTypes out =
     (case chatRequest hs out of
        NoChat \<Rightarrow> Some ([], None, mimeTypes)
      | ChatThrows e \<Rightarrow> Some ([], Some e, mimeTypes)
      | Reinject c \<Rightarrow> None)"
| "handleChatOutput (Suc n) hs exec mimeTypes out =
     (case chatRequest hs out of
        NoChat \<Rightarrow> Some ([], None, mimeTypes)
      | ChatThrows e \<Rightarrow> Some ([], Some e, mimeTypes)
      | Reinject c \<Rightarrow> relay n hs exec (fst (exec c)) (snd (exec c)) mimeTypes)"

datatype KernelStatus =
  Unknown | Starting | Idle | Busy | Terminating | Restarting | Autorestarting | Dead







section \<open>Auxiliary notions for the properties\<close>

text \<open>What a chained body does to the stored payload, starting from a fresh store.\<close>

definition persisted :: "update \<Rightarrow> stored_text \<Rightarrow> stored_text" where
  "persisted u data = encryptedStorage (body u (newStore data))"

text \<open>The session a block ends with.\<close>

fun sessionOf :: "flow \<Rightarrow> CaptureSession" where
  "sessionOf (Go s) = s"
| "sessionOf (Continue s) = s"
| "sessionOf (Break s) = s"
| "sessionOf (Return r s) = s"
| "sessionOf (Throw e s) = s"


section \<open>Concrete inputs\<close>

definition server_old :: StoredServer where
  "server_old =
     \<lparr>handle = ''h1'', uri = ''http://localhost:8888/'',
      serverInfo = \<lparr>baseUrl = ''http://localhost:8888/'', token = [], displayName = ''first'',
                    authorizationHeader = None\<rparr>\<rparr>"

definition server_new :: StoredServer where
  "server_new =
     \<lparr>handle = ''h1'', uri = ''http://localhost:9999/'',
      serverInfo = \<lparr>baseUrl = ''http://localhost:9999/'', token = [], displayName = ''second'',
                    authorizationHeader = None\<rparr>\<rparr>"

definition server_A :: StoredServer where
  "server_A =
     \<lparr>handle = ''a'', uri = ''http://alpha:8888/'',
      serverInfo = \<lparr>baseUrl = ''http://alpha:8888/'', token = [], displayName = ''Alpha'',
                    authorizationHeader = None\<rparr>\<rparr>"

definition server_B :: StoredServer where
  "server_B =
     \<lparr>handle = ''b'', uri = ''http://beta:8888/?token=t'',
      serverInfo = \<lparr>baseUrl = ''http://beta:8888/'', token = ''t'', displayName = ''Beta'',
                    authorizationHeader = None\<rparr>\<rparr>"

definition server_B_unparseable :: StoredServer where
  "server_B_unparseable =
     \<lparr>handle = ''b'', uri = ''not a url'',
      serverInfo = \<lparr>baseUrl = ''http://beta:8888/'', token = [], displayName = ''Beta'',
                    authorizationHeader = None\<rparr>\<rparr>"

definition tree_url :: string where
  "tree_url = ''http://localhost:8888/tree?token=abc123''"

definition no_fetch :: "string \<Rightarrow> fetch_result" where
  "no_fetch u = FetchThrows"


definition env_prompted :: Env where
  "env_prompted =
     \<lparr>initialUrl = [], web = False, bannerLabelYes = ''Yes'', allowInsecure = False,
      fetcher = no_fetch\<rparr>"

definition env_tree :: Env where
  "env_tree = env_prompted\<lparr>initialUrl := tree_url\<rparr>"

definition env_seeded :: Env where
  "env_seeded = env_prompted\<lparr>initialUrl := ''http://localhost:8888/''\<rparr>"

definition answers_ok :: Answers where
  "answers_ok =
     \<lparr>uuid = ''uuid-1'',
      urlFromUser = Resolved (''http://localhost:8888/'',
        \<lparr>baseUrl = ''http://localhost:8888/'', token = [], displayName = ''localhost'',
         authorizationHeader = None\<rparr>),
      cancelledAfterUrl = False, hub = Resolved False, passwordInfo = Resolved (False, None),
      cancelledAfterPasswords = False, insecurePick = Accept [''Yes''],
      cancelledAfterInsecure = False, remoteUri = Resolved (), cancelledAfterVerify = False,
      displayNameInput = Accept ''My server''\<rparr>"

definition answers_back_at_passwords :: Answers where
  "answers_back_at_passwords = answers_ok\<lparr>passwordInfo := Rejected (Flow Back)\<rparr>"

definition answers_back_at_insecure :: Answers where
  "answers_back_at_insecure = answers_ok\<lparr>insecurePick := PressBack\<rparr>"

definition answers_back_at_name :: Answers where
  "answers_back_at_name = answers_ok\<lparr>displayNameInput := PressBack\<rparr>"

definition start_seeded :: CaptureSession where
  "start_seeded = seed env_seeded (initialSession [] env_seeded)"

definition start_prompted :: CaptureSession where
  "start_prompted = seed env_prompted (initialSession [] env_prompted)"

definition chat_output :: "string \<Rightarrow> Output" where
  "chat_output f =
     \<lparr>output_items = [\<lparr>mime = ChatMime, item_data = ''payload''\<rparr>],
      output_metadata = Some [(''metadata'', \<lparr>md_id = ''cb-1'', md_function = f, dataIsNone = False\<rparr>)]\<rparr>"

definition chat_output_bare :: Output where
  "chat_output_bare =
     \<lparr>output_items = [\<lparr>mime = ChatMime, item_data = ''payload''\<rparr>], output_metadata = Some []\<rparr>"

definition text_output :: "string \<Rightarrow> Output" where
  "text_output t =
     \<lparr>output_items = [\<lparr>mime = ''text/plain'', item_data = t\<rparr>], output_metadata = None\<rparr>"



definition echo_handlers :: handlers where
  "echo_handlers f = (if f = ''echo'' then Some (\<lambda>d. Resolved d) else None)"

definition scripted_kernel :: "code \<Rightarrow> stream" where
  "scripted_kernel c =
     (case c of
        Code t \<Rightarrow> ([text_output ''a'', chat_output ''echo'', text_output ''b'',
                    chat_output ''unregistered'', text_output ''c''], None)
      | InvokeCallback i r \<Rightarrow> ([text_output ''called back''], None))"

section \<open>Properties of the server store\<close>

lemma getServers_keeps_payload:
  "encryptedStorage (snd (getServers b st)) = encryptedStorage st"
  "updatePromise (snd (getServers b st)) = updatePromise st"
  by (auto simp: getServers_def Let_def split: option.splits)

lemma getServers_reload:
  "fst (getServers True st) =
     (case encryptedStorage st of JsonText items \<Rightarrow> storageFormatToServers items | _ \<Rightarrow> [])"
  by (auto simp: getServers_def Let_def split: option.splits stored_text.splits)

lemma body_keeps_chain: "updatePromise (body u st) = updatePromise st"
  by (cases u) (simp_all add: split_beta Let_def getServers_keeps_payload)

lemma body_payload: "encryptedStorage (body u st) = persisted u (encryptedStorage st)"
  by (cases u) (simp_all add: persisted_def split_beta Let_def getServers_reload newStore_def)

lemma runBodies_payload:
  "encryptedStorage (runBodies us st) = foldl (\<lambda>d u. persisted u d) (encryptedStorage st) us"
  by (induction us arbitrary: st) (simp_all add: body_payload)

lemma issue_payload:
  "encryptedStorage (issue u st) = encryptedStorage st"
  "updatePromise (issue u st) = updatePromise st @ [u]"
  by (cases u; simp add: issue_def Let_def split: option.splits)+

lemma settle_run_payload:
  "encryptedStorage (settle (run evs st)) =
     foldl (\<lambda>d u. persisted u d) (encryptedStorage st) (updatePromise st @ calls evs)"
proof (induction evs arbitrary: st)
  case Nil
  show ?case by (simp add: settle_def runBodies_payload)
next
  case (Cons ev evs)
  show ?case
  proof (cases ev)
    case (Call u)
    then show ?thesis using Cons.IH [of "issue u st"] by (simp add: issue_payload)
  next
    case Turn
    show ?thesis
    proof (cases "updatePromise st")
      case Nil
      then show ?thesis using Turn Cons.IH [of st] by (simp add: runNext_def)
    next
      case (Cons u rest)
      then show ?thesis using Turn Cons.IH [of "body u (st\<lparr>updatePromise := rest\<rparr>)"]
        by (simp add: runNext_def body_keeps_chain body_payload)
    qed
  qed
qed

lemma persisted_Add_empty:
  "data = NoData \<or> data = JsonText [] \<Longrightarrow>
     persisted (Add A) data = JsonText (serverToStorageFormat [A])"
  by (auto simp: persisted_def newStore_def getServers_def Let_def JSON_stringify_def)

lemma persisted_Add_items:
  "items \<noteq> [] \<Longrightarrow> persisted (Add B) (JsonText items) =
     JsonText (serverToStorageFormat (storageFormatToServers items @ [B]))"
  by (simp add: persisted_def newStore_def getServers_def Let_def JSON_stringify_def)

lemma persisted_Remove_items:
  "items \<noteq> [] \<Longrightarrow> persisted (Remove h) (JsonText items) =
     JsonText (serverToStorageFormat (filter (\<lambda>s. handle s \<noteq> h) (storageFormatToServers items)))"
  by (simp add: persisted_def newStore_def getServers_def Let_def JSON_stringify_def)

text \<open>
  C1. Adding a second server under a handle that is already stored: the part of \<open>add\<close>
  that runs inside the call replaces the cached entry, but the chained body reloads the
  stored list and appends without removing the same-handle entry. After
  \<open>add(server_old)\<close> and \<open>add(server_new)\<close>, both with handle \<open>h1\<close>, the cache and the
  persisted list hold two entries for \<open>h1\<close>.
\<close>

theorem add_same_handle_keeps_both_entries:
  "servers (issue (Add server_new) (add server_old (newStore NoData))) = Some [server_new]
   \<and> servers (add server_new (add server_old (newStore NoData))) = Some [server_old, server_new]
   \<and> encryptedStorage (add server_new (add server_old (newStore NoData))) =
       JsonText [\<lparr>item_handle = ''h1'', item_uri = ''http://localhost:8888/'', item_displayName = ''first''\<rparr>,
                 \<lparr>item_handle = ''h1'', item_uri = ''http://localhost:9999/'', item_displayName = ''second''\<rparr>]"
  by code_simp

text \<open>
  C4, as stated, fails: on a fresh store over an empty payload the first
  \<open>getServers(false)\<close> returns the empty list without filling the cache, so the second
  call reads the storage again.
\<close>

theorem getServers_empty_payload_reads_again:
  "retrieveCalls (snd (getServers False (newStore NoData))) = 1
   \<and> servers (snd (getServers False (newStore NoData))) = None
   \<and> retrieveCalls (snd (getServers False (snd (getServers False (newStore NoData))))) = 2"
  by (simp add: getServers_def newStore_def)

text \<open>
  C4, amended. Two calls of \<open>getServers(false)\<close> in a row return the same list. The
  second call reads nothing (it leaves the store as the first left it) whenever the first
  call left a cache, which is the case exactly when a cache was there before or the
  payload is the text of a non-empty array. When there is no cache and the payload is
  missing, empty or unparseable, both calls return the empty list and the second call
  reads the storage once more.
\<close>

theorem getServers_twice:
  "fst (getServers False (snd (getServers False st))) = fst (getServers False st)
   \<and> (servers (snd (getServers False st)) \<noteq> None \<longrightarrow>
        snd (getServers False (snd (getServers False st))) = snd (getServers False st))
   \<and> (servers (snd (getServers False st)) \<noteq> None \<longleftrightarrow>
        servers st \<noteq> None \<or> (\<exists>items. encryptedStorage st = JsonText items \<and> items \<noteq> []))
   \<and> (servers st = None \<and> encryptedStorage st \<in> {NoData, JsonText [], BadText} \<longrightarrow>
        fst (getServers False st) = []
        \<and> retrieveCalls (snd (getServers False (snd (getServers False st)))) =
            retrieveCalls (snd (getServers False st)) + 1)"
  by (cases "encryptedStorage st")
     (auto simp: getServers_def Let_def split: option.splits)

theorem getServers_twice_witness:
  "servers (snd (getServers False (newStore (JsonText (serverToStorageFormat [server_A]))))) \<noteq> None
   \<and> snd (getServers False (snd (getServers False (newStore (JsonText (serverToStorageFormat [server_A]))))))
       = snd (getServers False (newStore (JsonText (serverToStorageFormat [server_A]))))
   \<and> servers (newStore BadText) = None \<and> encryptedStorage (newStore BadText) \<in> {NoData, JsonText [], BadText}
   \<and> fst (getServers False (newStore BadText)) = []
   \<and> retrieveCalls (snd (getServers False (snd (getServers False (newStore BadText))))) =
       retrieveCalls (snd (getServers False (newStore BadText))) + 1"
proof -
  have cached: "servers (snd (getServers False (newStore (JsonText (serverToStorageFormat [server_A]))))) \<noteq> None"
    by (simp add: getServers_def newStore_def serverToStorageFormat_def Let_def)
  have fresh: "servers (newStore BadText) = None"
    "encryptedStorage (newStore BadText) \<in> {NoData, JsonText [], BadText}"
    by (simp_all add: newStore_def)
  show ?thesis
    using cached fresh
      getServers_twice [of "newStore (JsonText (serverToStorageFormat [server_A]))"]
      getServers_twice [of "newStore BadText"]
    by blast
qed

text \<open>
  C5, as stated, fails: a stored entry whose URI \<open>parseUri\<close> rejects is dropped at the
  next reload. With such a \<open>B\<close>, \<open>add(A)\<close>, \<open>add(B)\<close>, \<open>remove(A)\<close> leave the empty list.
\<close>

theorem add_add_remove_drops_unparseable:
  "handle server_A \<noteq> handle server_B_unparseable
   \<and> encryptedStorage
       (settle (run [Call (Add server_A), Call (Add server_B_unparseable), Call (Remove (handle server_A))]
          (newStore NoData))) = JsonText []"
  by code_simp

text \<open>
  C5, amended. Take any schedule that issues \<open>add(A)\<close>, \<open>add(B)\<close>, \<open>remove(A.handle)\<close> in
  this order, with turns of the promise chain interleaved at will, on a store over an
  empty payload with nothing pending. If the handles differ and \<open>parseUri\<close> accepts the
  URI of \<open>B\<close>, then once the chain has settled the payload is what running the three
  bodies in issue order gives, and it is the list of exactly one record: the handle and
  URI of \<open>B\<close>, with the display name \<open>parseUri\<close> gives it (that of \<open>B\<close>, or the host name when
  that is empty).
\<close>

theorem add_add_remove_persists_second:
  assumes sched: "calls evs = [Add A, Add B, Remove (handle A)]"
    and idle: "updatePromise st = []"
    and empty: "encryptedStorage st = NoData \<or> encryptedStorage st = JsonText []"
    and distinct: "handle A \<noteq> handle B"
    and parses: "parseUri (uri B) (displayName (serverInfo B)) = Some info"
  shows "encryptedStorage (settle (run evs st)) =
           encryptedStorage (runBodies [Add A, Add B, Remove (handle A)] st)
         \<and> encryptedStorage (settle (run evs st)) =
           JsonText [\<lparr>item_handle = handle B, item_uri = uri B, item_displayName = displayName info\<rparr>]"
proof -
  let ?f = "\<lambda>d u. persisted u d"
  let ?ops = "[Add A, Add B, Remove (handle A)]"
  have fifo: "encryptedStorage (settle (run evs st)) = foldl ?f (encryptedStorage st) ?ops"
    using sched idle by (simp add: settle_run_payload)
  have direct: "encryptedStorage (runBodies ?ops st) = foldl ?f (encryptedStorage st) ?ops"
    by (rule runBodies_payload)
  have first: "persisted (Add A) (encryptedStorage st) = JsonText (serverToStorageFormat [A])"
    using empty by (rule persisted_Add_empty)
  have second: "persisted (Add B) (JsonText (serverToStorageFormat [A])) =
      JsonText (serverToStorageFormat (storageFormatToServers (serverToStorageFormat [A]) @ [B]))"
    by (rule persisted_Add_items) (simp add: serverToStorageFormat_def)
  have third: "persisted (Remove (handle A))
        (JsonText (serverToStorageFormat (storageFormatToServers (serverToStorageFormat [A]) @ [B]))) =
      JsonText [\<lparr>item_handle = handle B, item_uri = uri B, item_displayName = displayName info\<rparr>]"
    using distinct parses
    by (subst persisted_Remove_items)
       (auto simp: serverToStorageFormat_def split: option.splits)
  have result: "foldl ?f (encryptedStorage st) ?ops =
      JsonText [\<lparr>item_handle = handle B, item_uri = uri B, item_displayName = displayName info\<rparr>]"
    using first second third by simp
  show ?thesis
    using fifo direct result by simp
qed

theorem add_add_remove_persists_second_witness:
  "encryptedStorage
     (settle (run [Call (Add server_A), Call (Add server_B), Turn, Call (Remove (handle server_A))]
        (newStore NoData))) =
   JsonText [\<lparr>item_handle = ''b'', item_uri = ''http://beta:8888/?token=t'', item_displayName = ''Beta''\<rparr>]"
proof -
  have parses: "parseUri (uri server_B) (displayName (serverInfo server_B)) = Some (serverInfo server_B)"
    by code_simp
  have distinct: "handle server_A \<noteq> handle server_B"
    by (simp add: server_A_def server_B_def)
  have sched: "calls [Call (Add server_A), Call (Add server_B), Turn, Call (Remove (handle server_A))]
      = [Add server_A, Add server_B, Remove (handle server_A)]"
    by simp
  have idle: "updatePromise (newStore NoData) = []"
    and empty: "encryptedStorage (newStore NoData) = NoData \<or> encryptedStorage (newStore NoData) = JsonText []"
    by (simp_all add: newStore_def)
  have fields: "handle server_B = ''b''" "uri server_B = ''http://beta:8888/?token=t''"
    "displayName (serverInfo server_B) = ''Beta''"
    by (simp_all add: server_B_def)
  show ?thesis
    using add_add_remove_persists_second [OF sched idle empty distinct parses, THEN conjunct2]
    by (simp only: fields)
qed

section \<open>Properties of the insecure-connection gate\<close>

text \<open>
  C2, as stated, fails: the gate never writes the flag it reads. With the flag unset, a
  first call answered Yes resolves true, and the next call shows the quick pick again;
  answered No, it resolves false.
\<close>

theorem insecure_consent_is_asked_again:
  "promptToUseInsecureConnections ''Yes'' False (Accept [''Yes'']) = (Resolved True, True, False)
   \<and> promptToUseInsecureConnections ''Yes''
        (snd (snd (promptToUseInsecureConnections ''Yes'' False (Accept [''Yes'']))))
        (Accept [''No'']) = (Resolved False, True, False)"
  by (simp add: promptToUseInsecureConnections_def)

text \<open>
  C2, amended. A call resolves true without showing the quick pick exactly when the
  persisted flag is already set. The call leaves the flag as it found it; with the flag
  unset every call shows the quick pick, and resolves true only if the user accepts
  with the Yes item selected.
\<close>

theorem insecure_gate_reads_flag_only:
  "(flag \<longrightarrow> promptToUseInsecureConnections yes flag act = (Resolved True, False, flag))
   \<and> snd (snd (promptToUseInsecureConnections yes flag act)) = flag
   \<and> (\<not> flag \<longrightarrow>
        fst (snd (promptToUseInsecureConnections yes flag act))
        \<and> (fst (promptToUseInsecureConnections yes flag act) = Resolved True
             \<longleftrightarrow> (\<exists>selected. act = Accept selected \<and> yes \<in> set selected)))"
  by (cases act) (auto simp: promptToUseInsecureConnections_def list_ex_iff)

theorem insecure_gate_reads_flag_only_witness:
  "promptToUseInsecureConnections ''Yes'' True Hide = (Resolved True, False, True)
   \<and> fst (snd (promptToUseInsecureConnections ''Yes'' False (Accept [''Yes''])))
   \<and> fst (promptToUseInsecureConnections ''Yes'' False (Accept [''Yes''])) = Resolved True"
  using insecure_gate_reads_flag_only [of True "''Yes''" Hide]
    insecure_gate_reads_flag_only [of False "''Yes''" "Accept [''Yes'']"]
  by simp

section \<open>Properties of the codec\<close>






text \<open>
  C3. For \<open>http://localhost:8888/tree?token=abc123\<close> the codec extracts the token
  \<open>abc123\<close>, and the workflow seeded with this URL, with no password required, never
  shows the insecure-connection prompt. The base URL it produces, though, is
  \<open>http://localhost:8888\<close>, without the trailing slash: \<open>parseUri\<close> replaces the path
  \<open>/tree\<close> by the empty string, while the same server entered with the path \<open>/\<close> keeps
  its slash.
\<close>

theorem tree_url_base_has_no_trailing_slash:
  "parseUri tree_url [] =
     Some \<lparr>baseUrl = ''http://localhost:8888'', token = ''abc123'', displayName = ''localhost'',
           authorizationHeader = None\<rparr>
   \<and> parseUserUriAndGetValidationError no_fetch tree_url =
       (Valid \<lparr>baseUrl = ''http://localhost:8888'', token = ''abc123'', displayName = ''localhost'',
                authorizationHeader = None\<rparr> tree_url, [])
   \<and> parseUri ''http://localhost:8888/?token=abc123'' [] =
       Some \<lparr>baseUrl = ''http://localhost:8888/'', token = ''abc123'', displayName = ''localhost'',
             authorizationHeader = None\<rparr>
   \<and> (case captureRemoteJupyterUrl env_tree [answers_ok] False [] False (newStore NoData) of
         Some (Resolved (Handle h), s, store) \<Rightarrow>
           InsecurePromptShown \<notin> set (effects s)
           \<and> \<not> isInsecureConnection s
           \<and> baseUrl (jupyterServerUri s) = ''http://localhost:8888''
           \<and> token (jupyterServerUri s) = ''abc123''
       | _ \<Rightarrow> False)"
  by code_simp

lemma token_skips_insecure_prompt:
  "\<not> tokenIsEmpty s \<Longrightarrow> nextStep s = CheckInsecureConnections \<Longrightarrow>
     stepCheckInsecureConnections env a s =
       Go (s\<lparr>nextStep := VerifyConnection, previousStep := backToUrl env s\<rparr>)"
  by (simp add: stepCheckInsecureConnections_def Let_def tokenIsEmpty_def)

section \<open>Properties of the capture workflow\<close>

lemma stepCheckPasswords_throw:
  "stepCheckPasswords env a s1 = Throw e s2 \<Longrightarrow> previousStep s2 = backToUrl env s1"
  by (auto simp: stepCheckPasswords_def Let_def emit_def sendTelemetry_def
           split: if_splits outcome.splits prod.splits bool.splits)

lemma stepCheckInsecureConnections_back:
  "stepCheckInsecureConnections env a s1 = Throw (Flow Back) s2 \<Longrightarrow>
     previousStep s2 = backToUrl env s1"
  by (auto simp: stepCheckInsecureConnections_def Let_def emit_def sendTelemetry_def
           split: if_splits outcome.splits prod.splits option.splits)

lemma stepGetDisplayName_throw:
  "stepGetDisplayName env a s1 = Throw e s2 \<Longrightarrow>
     previousStep s2 =
       (if isInsecureConnection s1 then Some CheckInsecureConnections
        else if requiresPassword s1 \<and> tokenIsEmpty s1 then Some CheckPasswords
        else backToUrl env s1)"
  by (auto simp: stepGetDisplayName_def Let_def emit_def
           split: if_splits outcome.splits prod.splits option.splits)

lemma andThen_Throw: "andThen (Throw e s) f = Throw e s"
  by simp

lemma iteration_throw_at_passwords:
  "throughUrl env a s = Go s1 \<Longrightarrow> stepCheckPasswords env a s1 = Throw e s2 \<Longrightarrow>
     iteration env a s = onCatch (Throw e s2)"
  by (simp add: iteration_def throughVerify_def throughInsecure_def throughPasswords_def)

lemma iteration_throw_at_insecure:
  "throughPasswords env a s = Go s1 \<Longrightarrow> stepCheckInsecureConnections env a s1 = Throw e s2 \<Longrightarrow>
     iteration env a s = onCatch (Throw e s2)"
  by (simp add: iteration_def throughVerify_def throughInsecure_def)

lemma iteration_throw_at_name:
  "throughVerify env a s = Go s1 \<Longrightarrow> stepGetDisplayName env a s1 = Throw e s2 \<Longrightarrow>
     iteration env a s = onCatch (Throw e s2)"
  by (simp add: iteration_def)

lemma onCatch_Back:
  "onCatch (Throw (Flow Back) s) =
     (case previousStep s of None \<Rightarrow> Return (Action Back) s | Some p \<Rightarrow> Continue (s\<lparr>nextStep := p\<rparr>))"
  by simp

text \<open>
  C7, as stated, fails: in a flow seeded with a valid URL, Back from the display-name
  step does not leave the workflow when the connection was classified as insecure. The
  turn ends with \<open>continue\<close> and the next step is the insecure-connection check.
\<close>

theorem back_from_display_name_reenters_insecure_check:
  "initialUrlWasValid start_seeded \<and> initialUrl env_seeded \<noteq> []
   \<and> iteration env_seeded answers_back_at_name start_seeded =
       Continue (sessionOf (iteration env_seeded answers_back_at_name start_seeded))
   \<and> nextStep (sessionOf (iteration env_seeded answers_back_at_name start_seeded)) =
       CheckInsecureConnections
   \<and> DisplayNameInputShown ''uuid-1'' ''localhost''
       \<in> set (effects (sessionOf (iteration env_seeded answers_back_at_name start_seeded)))"
  by code_simp

text \<open>
  C7, amended. Call a flow seeded when it was started with a URL that passed validation
  and the URL step has not run since (\<open>initialUrlWasValid\<close> with a non-empty
  \<open>initialUrl\<close>). A Back signal thrown by the password step or by the insecure-connection
  prompt makes the function return the go-back signal when the flow is seeded, and
  re-enters the URL step when it is not. A Back signal thrown by the display-name step
  re-enters the insecure-connection check when the connection was classified insecure,
  else the password step when a password was required and the token is empty; only
  otherwise does it return the go-back signal (seeded) or re-enter the URL step (not
  seeded). A flow is seeded exactly when the pre-supplied URL is non-empty and valid, and
  the URL step clears the mark.
\<close>

theorem back_leaves_or_reenters:
  "(throughUrl env a s = Go s1 \<and> stepCheckPasswords env a s1 = Throw (Flow Back) s2 \<longrightarrow>
      iteration env a s =
        (if initialUrlWasValid s1 \<and> initialUrl env \<noteq> [] then Return (Action Back) s2
         else Continue (s2\<lparr>nextStep := GetUrl\<rparr>)))
   \<and> (throughPasswords env a s = Go s1
        \<and> stepCheckInsecureConnections env a s1 = Throw (Flow Back) s2 \<longrightarrow>
      iteration env a s =
        (if initialUrlWasValid s1 \<and> initialUrl env \<noteq> [] then Return (Action Back) s2
         else Continue (s2\<lparr>nextStep := GetUrl\<rparr>)))
   \<and> (throughVerify env a s = Go s1 \<and> stepGetDisplayName env a s1 = Throw (Flow Back) s2 \<longrightarrow>
      iteration env a s =
        (if isInsecureConnection s1 then Continue (s2\<lparr>nextStep := CheckInsecureConnections\<rparr>)
         else if requiresPassword s1 \<and> tokenIsEmpty s1 then Continue (s2\<lparr>nextStep := CheckPasswords\<rparr>)
         else if initialUrlWasValid s1 \<and> initialUrl env \<noteq> [] then Return (Action Back) s2
         else Continue (s2\<lparr>nextStep := GetUrl\<rparr>)))
   \<and> (initialUrlWasValid (seed env (initialSession registry env)) \<longleftrightarrow>
        initialUrl env \<noteq> []
        \<and> (\<exists>parsed u. fst (parseUserUriAndGetValidationError (fetcher env) (initialUrl env)) = Valid parsed u))
   \<and> (nextStep s = GetUrl \<longrightarrow> \<not> initialUrlWasValid (sessionOf (stepGetUrl env a s)))"
proof (intro conjI impI)
  assume h: "throughUrl env a s = Go s1 \<and> stepCheckPasswords env a s1 = Throw (Flow Back) s2"
  then have "iteration env a s = onCatch (Throw (Flow Back) s2)"
    by (simp add: iteration_throw_at_passwords)
  moreover from h have "previousStep s2 = backToUrl env s1"
    by (auto dest: stepCheckPasswords_throw)
  ultimately show "iteration env a s =
        (if initialUrlWasValid s1 \<and> initialUrl env \<noteq> [] then Return (Action Back) s2
         else Continue (s2\<lparr>nextStep := GetUrl\<rparr>))"
    by (simp add: backToUrl_def)
next
  assume h: "throughPasswords env a s = Go s1
        \<and> stepCheckInsecureConnections env a s1 = Throw (Flow Back) s2"
  then have "iteration env a s = onCatch (Throw (Flow Back) s2)"
    by (simp add: iteration_throw_at_insecure)
  moreover from h have "previousStep s2 = backToUrl env s1"
    by (auto dest: stepCheckInsecureConnections_back)
  ultimately show "iteration env a s =
        (if initialUrlWasValid s1 \<and> initialUrl env \<noteq> [] then Return (Action Back) s2
         else Continue (s2\<lparr>nextStep := GetUrl\<rparr>))"
    by (simp add: backToUrl_def)
next
  assume h: "throughVerify env a s = Go s1 \<and> stepGetDisplayName env a s1 = Throw (Flow Back) s2"
  then have "iteration env a s = onCatch (Throw (Flow Back) s2)"
    by (simp add: iteration_throw_at_name)
  moreover from h have "previousStep s2 =
       (if isInsecureConnection s1 then Some CheckInsecureConnections
        else if requiresPassword s1 \<and> tokenIsEmpty s1 then Some CheckPasswords
        else backToUrl env s1)"
    by (auto dest: stepGetDisplayName_throw)
  ultimately show "iteration env a s =
        (if isInsecureConnection s1 then Continue (s2\<lparr>nextStep := CheckInsecureConnections\<rparr>)
         else if requiresPassword s1 \<and> tokenIsEmpty s1 then Continue (s2\<lparr>nextStep := CheckPasswords\<rparr>)
         else if initialUrlWasValid s1 \<and> initialUrl env \<noteq> [] then Return (Action Back) s2
         else Continue (s2\<lparr>nextStep := GetUrl\<rparr>))"
    by (simp add: backToUrl_def)
next
  show "initialUrlWasValid (seed env (initialSession registry env)) \<longleftrightarrow>
        initialUrl env \<noteq> []
        \<and> (\<exists>parsed u. fst (parseUserUriAndGetValidationError (fetcher env) (initialUrl env)) = Valid parsed u)"
    by (auto simp: seed_def initialSession_def split: validation.splits)
next
  assume "nextStep s = GetUrl"
  then show "\<not> initialUrlWasValid (sessionOf (stepGetUrl env a s))"
    by (auto simp: stepGetUrl_def Let_def emit_def split: outcome.splits)
qed

theorem back_leaves_or_reenters_witness:
  "iteration env_seeded answers_back_at_passwords start_seeded =
     Return (Action Back)
       (sessionOf (stepCheckPasswords env_seeded answers_back_at_passwords
          (sessionOf (throughUrl env_seeded answers_back_at_passwords start_seeded))))
   \<and> iteration env_seeded answers_back_at_insecure start_seeded =
     Return (Action Back)
       (sessionOf (stepCheckInsecureConnections env_seeded answers_back_at_insecure
          (sessionOf (throughPasswords env_seeded answers_back_at_insecure start_seeded))))
   \<and> iteration env_prompted answers_back_at_name start_prompted =
     Continue
       ((sessionOf (stepGetDisplayName env_prompted answers_back_at_name
          (sessionOf (throughVerify env_prompted answers_back_at_name start_prompted))))
        \<lparr>nextStep := CheckInsecureConnections\<rparr>)
   \<and> \<not> initialUrlWasValid (sessionOf (stepGetUrl env_prompted answers_ok start_prompted))"
proof -
  define p1 where "p1 = sessionOf (throughUrl env_seeded answers_back_at_passwords start_seeded)"
  define p2 where "p2 = sessionOf (stepCheckPasswords env_seeded answers_back_at_passwords p1)"
  define i1 where "i1 = sessionOf (throughPasswords env_seeded answers_back_at_insecure start_seeded)"
  define i2 where "i2 = sessionOf (stepCheckInsecureConnections env_seeded answers_back_at_insecure i1)"
  define d1 where "d1 = sessionOf (throughVerify env_prompted answers_back_at_name start_prompted)"
  define d2 where "d2 = sessionOf (stepGetDisplayName env_prompted answers_back_at_name d1)"
  have P: "throughUrl env_seeded answers_back_at_passwords start_seeded = Go p1
      \<and> stepCheckPasswords env_seeded answers_back_at_passwords p1 = Throw (Flow Back) p2"
    and Pseeded: "initialUrlWasValid p1 \<and> initialUrl env_seeded \<noteq> []"
    unfolding p1_def p2_def by code_simp+
  have I: "throughPasswords env_seeded answers_back_at_insecure start_seeded = Go i1
      \<and> stepCheckInsecureConnections env_seeded answers_back_at_insecure i1 = Throw (Flow Back) i2"
    and Iseeded: "initialUrlWasValid i1 \<and> initialUrl env_seeded \<noteq> []"
    unfolding i1_def i2_def by code_simp+
  have D: "throughVerify env_prompted answers_back_at_name start_prompted = Go d1
      \<and> stepGetDisplayName env_prompted answers_back_at_name d1 = Throw (Flow Back) d2"
    and Dinsecure: "isInsecureConnection d1"
    unfolding d1_def d2_def by code_simp+
  have U: "nextStep start_prompted = GetUrl"
    by code_simp
  have "iteration env_seeded answers_back_at_passwords start_seeded = Return (Action Back) p2"
    using back_leaves_or_reenters [of env_seeded answers_back_at_passwords start_seeded p1 p2] P Pseeded
    by simp
  moreover
  have "iteration env_seeded answers_back_at_insecure start_seeded = Return (Action Back) i2"
    using back_leaves_or_reenters [of env_seeded answers_back_at_insecure start_seeded i1 i2] I Iseeded
    by simp
  moreover
  have "iteration env_prompted answers_back_at_name start_prompted =
      Continue (d2\<lparr>nextStep := CheckInsecureConnections\<rparr>)"
    using back_leaves_or_reenters [of env_prompted answers_back_at_name start_prompted d1 d2] D Dinsecure
    by simp
  moreover
  have "\<not> initialUrlWasValid (sessionOf (stepGetUrl env_prompted answers_ok start_prompted))"
    using back_leaves_or_reenters [of env_prompted answers_ok start_prompted] U
    by simp
  ultimately show ?thesis
    unfolding p1_def p2_def i1_def i2_def d1_def d2_def by simp
qed

section \<open>Properties of the execution multiplexer\<close>








lemma chatRequest_no_metadata:
  assumes "hasChatOutput out"
    and "map_of (case output_metadata out of None \<Rightarrow> [] | Some m \<Rightarrow> m) ''metadata'' = None"
  shows "chatRequest hs out =
           ChatThrows (TypeError ''Cannot read properties of undefined (reading 'function')'')"
proof -
  from assms(1) obtain item where "find (\<lambda>i. mime i = ChatMime) (output_items out) = Some item"
    by (cases "find (\<lambda>i. mime i = ChatMime) (output_items out)")
       (auto simp: hasChatOutput_def list_ex_iff find_None_iff)
  with assms(2) show ?thesis by (simp add: chatRequest_def)
qed

lemma handleChatOutput_throws:
  "chatRequest hs out = ChatThrows e \<Longrightarrow> handleChatOutput n hs exec ms out = Some ([], Some e, ms)"
  by (cases n) simp_all


lemma relay_chat_throws:
  "hasChatOutput out \<Longrightarrow> chatRequest hs out = ChatThrows e \<Longrightarrow>
     relay n hs exec (out # rest) ending ms = Some ([], Some e, addMimeTypes ms out)"
  by (simp add: handleChatOutput_throws)







text \<open>
  C10. \<open>handleChatOutput\<close> reads \<open>metadata.function\<close> without checking that the output's
  metadata has the entry \<open>metadata\<close>. For every chat output that lacks it, whatever the
  handler table and the nesting depth, the generator yields nothing and ends with the
  runtime's \<open>TypeError\<close>, not with the \<open>Chat Function ... not found\<close> error of the
  protocol, and the loop that met the output ends with that \<open>TypeError\<close> too.
\<close>

theorem chat_output_without_metadata_raises_TypeError:
  assumes chat: "hasChatOutput out"
    and missing: "map_of (case output_metadata out of None \<Rightarrow> [] | Some m \<Rightarrow> m) ''metadata'' = None"
  shows "handleChatOutput n hs exec ms out =
           Some ([], Some (TypeError ''Cannot read properties of undefined (reading 'function')''), ms)
   \<and> relay n hs exec (out # rest) ending ms =
           Some ([], Some (TypeError ''Cannot read properties of undefined (reading 'function')''),
                 addMimeTypes ms out)
   \<and> (\<forall>f. handleChatOutput n hs exec ms out \<noteq>
             Some ([], Some (Error (''Chat Function '' @ f @ '' not found'')), ms))"
proof -
  have throws: "chatRequest hs out =
      ChatThrows (TypeError ''Cannot read properties of undefined (reading 'function')'')"
    using chat missing by (rule chatRequest_no_metadata)
  then have one: "handleChatOutput n hs exec ms out =
      Some ([], Some (TypeError ''Cannot read properties of undefined (reading 'function')''), ms)"
    by (rule handleChatOutput_throws)
  have two: "relay n hs exec (out # rest) ending ms =
      Some ([], Some (TypeError ''Cannot read properties of undefined (reading 'function')''),
            addMimeTypes ms out)"
    using chat throws by (rule relay_chat_throws)
  from one have three: "\<forall>f. handleChatOutput n hs exec ms out \<noteq>
      Some ([], Some (Error (''Chat Function '' @ f @ '' not found'')), ms)"
    by simp
  from one two three show ?thesis by blast
qed

theorem chat_output_without_metadata_raises_TypeError_witness:
  "hasChatOutput chat_output_bare
   \<and> handleChatOutput 0 echo_handlers scripted_kernel [] chat_output_bare =
       Some ([], Some (TypeError ''Cannot read properties of undefined (reading 'function')''), [])
   \<and> relay 0 echo_handlers scripted_kernel [chat_output_bare, text_output ''later''] None [] =
       Some ([], Some (TypeError ''Cannot read properties of undefined (reading 'function')''), [ChatMime])"
proof -
  have chat: "hasChatOutput chat_output_bare"
    by (simp add: hasChatOutput_def chat_output_bare_def)
  have missing: "map_of (case output_metadata chat_output_bare of None \<Rightarrow> [] | Some m \<Rightarrow> m) ''metadata'' = None"
    by (simp add: chat_output_bare_def)
  have mimes: "addMimeTypes [] chat_output_bare = [ChatMime]"
    by (simp add: addMimeTypes_def chat_output_bare_def)
  show ?thesis
    using chat mimes
      chat_output_without_metadata_raises_TypeError [OF chat missing,
        of 0 echo_handlers scripted_kernel "[]" "[text_output ''later'']" None]
    by simp
qed

end
